theory Spec2Isabelle
  imports Main "HOL-Library.Word"
begin

section \<open>Stream Proxy: the request handlers of stream\_proxy.py\<close>

text \<open>
  The service has two POST handlers, \<open>extract_stream\<close> and \<open>proxy_iframe\<close>, and one
  extraction routine, \<open>extract_video_from_iframe\<close>, that drives a browser through
  Selenium. Flask and Selenium are libraries, not code of the repository: what their
  calls return or raise is a parameter of the model (the record \<open>browser\<close> and the field
  \<open>get_json\<close> of a request). The handlers themselves, their control flow, their
  \<open>try\<close>/\<open>except\<close>/\<open>finally\<close> blocks and their responses are translated from the
  source. Calls to the logger change neither control flow nor results and are left out.
\<close>

subsection \<open>Values\<close>

text \<open>
  A Python value as \<open>request.get_json()\<close> returns it. A float is its IEEE 754 bit
  pattern; a string is its UTF-8 bytes; a dict is an association list with distinct keys.
\<close>

datatype json =
    JNull
  | JBool bool
  | JInt int
  | JFloat "64 word"
  | JStr string
  | JArr "json list"
  | JObj "(string \<times> json) list"

text \<open>Python's truth value of a value (\<open>not iframe_url\<close>, \<open>if video_url:\<close>).\<close>

fun truthy :: "json \<Rightarrow> bool" where
  "truthy JNull = False"
| "truthy (JBool b) = b"
| "truthy (JInt n) = (n \<noteq> 0)"
| "truthy (JFloat w) = (push_bit 1 w \<noteq> 0)"
| "truthy (JStr s) = (s \<noteq> [])"
| "truthy (JArr xs) = (xs \<noteq> [])"
| "truthy (JObj kv) = (kv \<noteq> [])"

text \<open>
  \<open>get_attribute\<close> returns a string or \<open>None\<close>: a \<open>string option\<close>. Its truth value:
\<close>

fun truthy_attr :: "string option \<Rightarrow> bool" where
  "truthy_attr None = False"
| "truthy_attr (Some s) = (s \<noteq> [])"

fun type_name :: "json \<Rightarrow> string" where
  "type_name JNull = ''NoneType''"
| "type_name (JBool b) = ''bool''"
| "type_name (JInt n) = ''int''"
| "type_name (JFloat w) = ''float''"
| "type_name (JStr s) = ''str''"
| "type_name (JArr xs) = ''list''"
| "type_name (JObj kv) = ''dict''"

text \<open>What \<open>jsonify\<close> makes of an attribute value: a string, or \<open>null\<close> for \<open>None\<close>.\<close>

fun attr_json :: "string option \<Rightarrow> json" where
  "attr_json None = JNull"
| "attr_json (Some s) = JStr s"

definition quoted :: "string \<Rightarrow> string" where
  "quoted s = CHR 0x27 # s @ [CHR 0x27]"

subsection \<open>Exceptions and computations\<close>

text \<open>
  An exception (an instance of \<open>Exception\<close>) is its class name and the text \<open>str(e)\<close>
  gives.
\<close>

datatype exn = Exn (exn_class: string) (exn_str: string)

text \<open>
  The calls a request makes on the browser, in order. Every call site of the source has
  an event of its own; \<open>EScriptHtml i\<close> is \<open>get_attribute('innerHTML')\<close> on the
  \<open>i\<close>-th script element.
\<close>

datatype event =
    ELaunch
  | EGet json
  | ESetPageLoadTimeout nat
  | EWaitIframe nat
  | EFindIframe
  | ESwitchFrame
  | EWaitVideo nat
  | ENestedSrc
  | ESwitchDefault
  | EFindVideo
  | EDirectSrc
  | EFindScripts
  | EScriptHtml nat
  | EQuit

text \<open>
  A computation either raises (\<open>Inl\<close>) or returns (\<open>Inr\<close>), and leaves the list of
  the calls it made.
\<close>

type_synonym 'a comp = "(exn + 'a) \<times> event list"

definition comp_return :: "'a \<Rightarrow> 'a comp" where
  "comp_return x = (Inr x, [])"

definition comp_raise :: "exn \<Rightarrow> 'a comp" where
  "comp_raise e = (Inl e, [])"

definition comp_call :: "event \<Rightarrow> exn + 'a \<Rightarrow> 'a comp" where
  "comp_call ev outcome = (outcome, [ev])"

definition comp_bind :: "'a comp \<Rightarrow> ('a \<Rightarrow> 'b comp) \<Rightarrow> 'b comp" where
  "comp_bind m f =
     (case m of
        (Inl e, t) \<Rightarrow> (Inl e, t)
      | (Inr x, t) \<Rightarrow> (case f x of (r, t') \<Rightarrow> (r, t @ t')))"

text \<open>\<open>try: m except Exception as e: h e\<close>\<close>

definition try_except :: "'a comp \<Rightarrow> (exn \<Rightarrow> 'a comp) \<Rightarrow> 'a comp" where
  "try_except m h =
     (case m of
        (Inl e, t) \<Rightarrow> (case h e of (r, t') \<Rightarrow> (r, t @ t'))
      | (Inr x, t) \<Rightarrow> (Inr x, t))"

text \<open>
  \<open>try: m finally: fin\<close>. The \<open>finally\<close> block runs on every exit of \<open>m\<close>; when it
  raises, its exception replaces the result of \<open>m\<close>, a pending \<open>return\<close> included.
\<close>

definition try_finally :: "'a comp \<Rightarrow> unit comp \<Rightarrow> 'a comp" where
  "try_finally m fin =
     (case m of (r, t) \<Rightarrow>
        (case fin of
           (Inl e, t') \<Rightarrow> (Inl e, t @ t')
         | (Inr u, t') \<Rightarrow> (r, t @ t')))"

subsection \<open>The browser\<close>

text \<open>
  What each Selenium call of one request returns or raises. A script element is what
  \<open>get_attribute('innerHTML')\<close> gives on it.
\<close>

record browser =
  launch :: "exn + unit"
  nav_get :: "exn + unit"
  set_page_load_timeout :: "exn + unit"
  wait_iframe :: "exn + unit"
  find_iframe :: "exn + unit"
  switch_frame :: "exn + unit"
  wait_video :: "exn + unit"
  nested_src :: "exn + string option"
  switch_default :: "exn + unit"
  find_video :: "exn + unit"
  direct_src :: "exn + string option"
  find_scripts :: "exn + (exn + string option) list"
  quit_driver :: "exn + unit"

definition TIMEOUT :: nat where
  "TIMEOUT = 20"

text \<open>\<open>get_chrome_driver\<close>: build the service and the options, start Chrome; log and re-raise.\<close>

definition get_chrome_driver :: "browser \<Rightarrow> unit comp" where
  "get_chrome_driver env = try_except (comp_call ELaunch (launch env)) (\<lambda>e. comp_raise e)"

subsection \<open>The extraction routine\<close>

text \<open>Python's \<open>sub in s\<close> on strings.\<close>

fun py_in :: "string \<Rightarrow> string \<Rightarrow> bool" where
  "py_in sub [] = (sub = [])"
| "py_in sub (c # cs) = (take (length sub) (c # cs) = sub \<or> py_in sub cs)"

text \<open>
  A block of the routine either leaves the function with \<open>return v\<close> or falls through
  to the statement after it.
\<close>

datatype 'a flow = Return 'a | Fallthrough

text \<open>The body of the inner \<open>try\<close> (lines 70 to 82): the video of the nested frame.\<close>

definition nested_lookup :: "browser \<Rightarrow> (string option) flow comp" where
  "nested_lookup env =
     comp_bind (comp_call EFindIframe (find_iframe env)) (\<lambda>iframe.
     comp_bind (comp_call ESwitchFrame (switch_frame env)) (\<lambda>u.
     comp_bind (comp_call (EWaitVideo TIMEOUT) (wait_video env)) (\<lambda>video_element.
     comp_bind (comp_call ENestedSrc (nested_src env)) (\<lambda>video_url.
       if truthy_attr video_url then comp_return (Return video_url)
       else comp_return Fallthrough))))"

text \<open>The handler of the inner \<open>try\<close> (lines 85 to 94): the video of the top document.\<close>

definition direct_lookup :: "browser \<Rightarrow> (string option) flow comp" where
  "direct_lookup env =
     comp_bind (comp_call ESwitchDefault (switch_default env)) (\<lambda>u.
     comp_bind (comp_call EFindVideo (find_video env)) (\<lambda>video_element.
     comp_bind (comp_call EDirectSrc (direct_src env)) (\<lambda>video_url.
       if truthy_attr video_url then comp_return (Return video_url)
       else comp_return Fallthrough)))"

text \<open>
  The loop over the script elements (lines 101 to 105), from the \<open>i\<close>-th on.
  \<open>'http' in None\<close> raises a \<open>TypeError\<close>.
\<close>

fun scan_scripts :: "nat \<Rightarrow> (exn + string option) list \<Rightarrow> (string option) comp" where
  "scan_scripts i [] = comp_return None"
| "scan_scripts i (script # scripts) =
     comp_bind (comp_call (EScriptHtml i) script) (\<lambda>content.
       case content of
         None \<Rightarrow> comp_raise (Exn ''TypeError'' ''argument of type 'NoneType' is not iterable'')
       | Some c \<Rightarrow>
           if py_in ''http'' c \<and> py_in ''.m3u8'' c then comp_return (Some c)
           else scan_scripts (Suc i) scripts)"

definition extract_video_from_iframe :: "browser \<Rightarrow> json \<Rightarrow> (string option) comp" where
  "extract_video_from_iframe env iframe_url =
     try_except
       (comp_bind (comp_call (EGet iframe_url) (nav_get env)) (\<lambda>u.
        comp_bind (comp_call (ESetPageLoadTimeout TIMEOUT) (set_page_load_timeout env)) (\<lambda>u.
        comp_bind (comp_call (EWaitIframe TIMEOUT) (wait_iframe env)) (\<lambda>u.
        comp_bind (try_except (nested_lookup env) (\<lambda>e. direct_lookup env)) (\<lambda>fl.
          case fl of
            Return video_url \<Rightarrow> comp_return video_url
          | Fallthrough \<Rightarrow>
              comp_bind (comp_call EFindScripts (find_scripts env)) (\<lambda>scripts.
                scan_scripts 0 scripts))))))
       (\<lambda>e. comp_raise e)"

subsection \<open>The handlers\<close>

text \<open>
  A request as the handlers read it: \<open>request.method\<close> and what \<open>request.get_json()\<close>
  returns or raises (Flask raises on a body that is not JSON; \<open>None\<close> is \<open>JNull\<close>).
  A response is the value given to \<open>jsonify\<close> and the status code.
\<close>

record request =
  req_method :: string
  get_json :: "exn + json"

type_synonym response = "json \<times> nat"

text \<open>\<open>data.get(key)\<close>: a dict answers, \<open>None\<close> for a missing key; anything else has no \<open>get\<close>.\<close>

fun is_dict :: "json \<Rightarrow> bool" where
  "is_dict (JObj kv) = True"
| "is_dict v = False"

definition attribute_error :: "json \<Rightarrow> string \<Rightarrow> exn" where
  "attribute_error v a =
     Exn ''AttributeError'' (quoted (type_name v) @ '' object has no attribute '' @ quoted a)"

definition py_get :: "json \<Rightarrow> string \<Rightarrow> json comp" where
  "py_get data k =
     (case data of
        JObj kv \<Rightarrow> comp_return (case map_of kv k of None \<Rightarrow> JNull | Some v \<Rightarrow> v)
      | _ \<Rightarrow> comp_raise (attribute_error data ''get''))"

definition msg_extracted :: string where
  "msg_extracted = ''Stream extra'' @ [CHR 0xC3, CHR 0xAD] @ ''do exitosamente''"

definition msg_not_found :: string where
  "msg_not_found = ''No se encontr'' @ [CHR 0xC3, CHR 0xB3] @ '' URL de video en el iframe''"

text \<open>
  The body of the outer \<open>try\<close> of \<open>extract_stream\<close> (lines 144 to 175). The
  \<open>finally\<close> block calls \<open>driver.quit()\<close> only when \<open>driver\<close> is set, that is
  when \<open>get_chrome_driver\<close> has returned: \<open>try_finally\<close> starts after that call. The
  two \<open>return\<close> statements stand inside the \<open>try\<close>, so \<open>quit\<close> runs after the
  response has been chosen and before the handler returns it.
\<close>

definition extract_stream_try :: "request \<Rightarrow> browser \<Rightarrow> response comp" where
  "extract_stream_try req env =
     comp_bind (get_json req, []) (\<lambda>data.
     comp_bind (py_get data ''url'') (\<lambda>iframe_url.
       if \<not> truthy iframe_url then
         comp_return (JObj [(''error'', JStr ''URL requerida''), (''success'', JBool False)], 400)
       else
         comp_bind (get_chrome_driver env) (\<lambda>driver.
           try_finally
             (comp_bind (extract_video_from_iframe env iframe_url) (\<lambda>video_url.
                if truthy_attr video_url then
                  comp_return
                    (JObj [(''success'', JBool True),
                           (''video_url'', attr_json video_url),
                           (''message'', JStr msg_extracted)], 200)
                else
                  comp_return
                    (JObj [(''success'', JBool False),
                           (''error'', JStr msg_not_found)], 404)))
             (comp_call EQuit (quit_driver env)))))"

definition extract_stream :: "request \<Rightarrow> browser \<Rightarrow> response \<times> event list" where
  "extract_stream req env =
     (if req_method req = ''OPTIONS'' then ((JObj [], 200), [])
      else
        (case extract_stream_try req env of
           (Inr resp, t) \<Rightarrow> (resp, t)
         | (Inl e, t) \<Rightarrow>
             ((JObj [(''success'', JBool False), (''error'', JStr (exn_str e))], 500), t)))"

text \<open>The body of the \<open>try\<close> of \<open>proxy_iframe\<close> (lines 198 to 209).\<close>

definition proxy_iframe_try :: "request \<Rightarrow> response comp" where
  "proxy_iframe_try req =
     comp_bind (get_json req, []) (\<lambda>data.
     comp_bind (py_get data ''url'') (\<lambda>iframe_url.
       if \<not> truthy iframe_url then
         comp_return (JObj [(''error'', JStr ''URL requerida''), (''success'', JBool False)], 400)
       else
         comp_return
           (JObj [(''success'', JBool True),
                  (''iframe_url'', iframe_url),
                  (''message'', JStr ''URL lista para embeber'')], 200)))"

definition proxy_iframe :: "request \<Rightarrow> response" where
  "proxy_iframe req =
     (if req_method req = ''OPTIONS'' then (JObj [], 200)
      else
        (case proxy_iframe_try req of
           (Inr resp, t) \<Rightarrow> resp
         | (Inl e, t) \<Rightarrow>
             (JObj [(''error'', JStr (exn_str e)), (''success'', JBool False)], 500)))"

subsection \<open>A part of the routine, named for the proofs\<close>

text \<open>
  Lines 68 to 107 of \<open>extract_video_from_iframe\<close>: the inner \<open>try\<close> with its handler,
  then the scan of the scripts. \<open>extract_unfold\<close> below shows that the routine is the
  three first calls followed by this part.
\<close>

definition extract_tail :: "browser \<Rightarrow> (string option) comp" where
  "extract_tail env =
     comp_bind (try_except (nested_lookup env) (\<lambda>e. direct_lookup env)) (\<lambda>fl.
       case fl of
         Return video_url \<Rightarrow> comp_return video_url
       | Fallthrough \<Rightarrow>
           comp_bind (comp_call EFindScripts (find_scripts env)) (\<lambda>scripts.
             scan_scripts 0 scripts))"

subsection \<open>Concrete requests and browsers\<close>

text \<open>A page whose nested frame holds a video with a source: every call returns.\<close>

definition browser_ok :: browser where
  "browser_ok =
     \<lparr> launch = Inr (), nav_get = Inr (), set_page_load_timeout = Inr (),
       wait_iframe = Inr (), find_iframe = Inr (), switch_frame = Inr (),
       wait_video = Inr (), nested_src = Inr (Some ''https://cdn.example/live.m3u8''),
       switch_default = Inr (), find_video = Inr (),
       direct_src = Inr (Some ''https://cdn.example/direct.mp4''),
       find_scripts = Inr [Inr (Some ''var a = 1;'')],
       quit_driver = Inr () \<rparr>"

text \<open>The nested video has no \<open>src\<close> and no script names a playlist.\<close>

definition browser_no_src :: browser where
  "browser_no_src = browser_ok\<lparr>nested_src := Inr None\<rparr>"

text \<open>Chrome does not start.\<close>

definition browser_no_launch :: browser where
  "browser_no_launch =
     browser_ok\<lparr>launch := Inl (Exn ''SessionNotCreatedException'' ''Message: session not created'')\<rparr>"

text \<open>The page does not load.\<close>

definition browser_nav_timeout :: browser where
  "browser_nav_timeout =
     browser_ok\<lparr>nav_get := Inl (Exn ''TimeoutException'' ''Message: timeout'')\<rparr>"

text \<open>The video is found, and closing the browser raises.\<close>

definition browser_quit_raises :: browser where
  "browser_quit_raises =
     browser_ok\<lparr>quit_driver := Inl (Exn ''ConnectionResetError'' ''Connection reset by peer'')\<rparr>"

text \<open>
  No \<open>video\<close> element in the nested frame (the wait times out) nor in the top document
  (\<open>find_element\<close> raises), and a script that names a playlist.
\<close>

definition browser_no_video_tag :: browser where
  "browser_no_video_tag =
     browser_ok\<lparr>
       wait_video := Inl (Exn ''TimeoutException'' ''Message: ''),
       find_video := Inl (Exn ''NoSuchElementException'' ''Message: no such element''),
       find_scripts := Inr [Inr (Some ''var a = 1;''),
                            Inr (Some ''player.load('http://h/v.m3u8');'')]\<rparr>"

text \<open>
  The page has no \<open>iframe\<close> element any more when the routine looks for it
  (\<open>find_element\<close> raises), and the top document holds a video with a source.
\<close>

definition browser_nested_missing :: browser where
  "browser_nested_missing =
     browser_ok\<lparr>find_iframe :=
       Inl (Exn ''NoSuchElementException'' ''Message: no such element'')\<rparr>"

text \<open>The nested video has no \<open>src\<close>, and a script names a playlist.\<close>

definition browser_script :: browser where
  "browser_script =
     browser_ok\<lparr>
       nested_src := Inr (Some []),
       find_scripts := Inr [Inr (Some ''var a = 1;''),
                            Inr (Some ''player.load('http://h/v.m3u8');'')]\<rparr>"

definition req_url :: request where
  "req_url =
     \<lparr> req_method = ''POST'',
       get_json = Inr (JObj [(''url'', JStr ''https://site.example/embed'')]) \<rparr>"

definition req_no_url :: request where
  "req_no_url = \<lparr> req_method = ''POST'', get_json = Inr (JObj [(''page'', JInt 1)]) \<rparr>"

definition req_empty_url :: request where
  "req_empty_url = \<lparr> req_method = ''POST'', get_json = Inr (JObj [(''url'', JStr [])]) \<rparr>"

definition req_no_body :: request where
  "req_no_body =
     \<lparr> req_method = ''POST'',
       get_json = Inl (Exn ''UnsupportedMediaType'' ''415 Unsupported Media Type'') \<rparr>"

definition req_list_body :: request where
  "req_list_body = \<lparr> req_method = ''POST'', get_json = Inr (JArr [JStr ''https://site.example/embed'']) \<rparr>"

definition req_options :: request where
  "req_options = \<lparr> req_method = ''OPTIONS'', get_json = Inr JNull \<rparr>"

section \<open>Computations and the calls they leave\<close>

lemma fst_comp_return: "fst (comp_return x) = Inr x"
  and snd_comp_return: "snd (comp_return x) = []"
  and fst_comp_raise: "fst (comp_raise e) = Inl e"
  and snd_comp_raise: "snd (comp_raise e) = []"
  and fst_comp_call: "fst (comp_call ev r) = r"
  and snd_comp_call: "snd (comp_call ev r) = [ev]"
  by (simp_all add: comp_return_def comp_raise_def comp_call_def)

lemma fst_comp_bind:
  "fst (comp_bind m f) = (case fst m of Inl e \<Rightarrow> Inl e | Inr x \<Rightarrow> fst (f x))"
  by (simp add: comp_bind_def split: prod.splits sum.splits)

lemma snd_comp_bind:
  "snd (comp_bind m f) = (case fst m of Inl e \<Rightarrow> snd m | Inr x \<Rightarrow> snd m @ snd (f x))"
  by (simp add: comp_bind_def split: prod.splits sum.splits)

lemma fst_try_except:
  "fst (try_except m h) = (case fst m of Inl e \<Rightarrow> fst (h e) | Inr x \<Rightarrow> Inr x)"
  by (simp add: try_except_def split: prod.splits sum.splits)

lemma snd_try_except:
  "snd (try_except m h) = (case fst m of Inl e \<Rightarrow> snd m @ snd (h e) | Inr x \<Rightarrow> snd m)"
  by (simp add: try_except_def split: prod.splits sum.splits)

lemma fst_try_finally:
  "fst (try_finally m fin) = (case fst fin of Inl e \<Rightarrow> Inl e | Inr u \<Rightarrow> fst m)"
  by (simp add: try_finally_def split: prod.splits sum.splits)

lemma snd_try_finally:
  "snd (try_finally m fin) = snd m @ snd fin"
  by (simp add: try_finally_def split: prod.splits sum.splits)

lemmas comp_simps = fst_comp_return snd_comp_return fst_comp_raise snd_comp_raise
  fst_comp_call snd_comp_call fst_comp_bind snd_comp_bind fst_try_except snd_try_except
  fst_try_finally snd_try_finally

lemma scan_scripts_events:
  "ev \<in> set (snd (scan_scripts i ss)) \<Longrightarrow> \<exists>j\<ge>i. ev = EScriptHtml j"
proof (induction ss arbitrary: i)
  case Nil
  then show ?case by (simp add: comp_simps)
next
  case (Cons s ss)
  show ?case
  proof (cases "ev = EScriptHtml i")
    case True
    then show ?thesis by blast
  next
    case False
    with Cons.prems have "ev \<in> set (snd (scan_scripts (Suc i) ss))"
      by (auto simp: comp_simps split: sum.splits option.splits if_splits)
    from Cons.IH[OF this] obtain j where "Suc i \<le> j" "ev = EScriptHtml j" by blast
    then have "i \<le> j \<and> ev = EScriptHtml j" by simp
    then show ?thesis by blast
  qed
qed

lemma scan_scripts_distinct: "distinct (snd (scan_scripts i ss))"
proof (induction ss arbitrary: i)
  case Nil
  then show ?case by (simp add: comp_simps)
next
  case (Cons s ss)
  have "EScriptHtml i \<notin> set (snd (scan_scripts (Suc i) ss))"
    using scan_scripts_events[of "EScriptHtml i" "Suc i" ss] by auto
  with Cons.IH[of "Suc i"] show ?case
    by (auto simp: comp_simps split: sum.splits option.splits if_splits)
qed

lemma py_in_nonempty: "py_in (a # as) s \<Longrightarrow> s \<noteq> []"
  by (cases s) auto

lemma scan_scripts_result:
  "fst (scan_scripts i ss) = Inr (Some c) \<Longrightarrow>
     py_in ''http'' c \<and> py_in ''.m3u8'' c \<and> Inr (Some c) \<in> set ss"
proof (induction ss arbitrary: i)
  case Nil
  then show ?case by (simp add: comp_simps)
next
  case (Cons s ss)
  then show ?case
    by (auto simp: comp_simps split: sum.splits option.splits if_splits)
qed

lemma nested_lookup_events:
  "set (snd (nested_lookup env)) \<subseteq> {EFindIframe, ESwitchFrame, EWaitVideo TIMEOUT, ENestedSrc}"
  "distinct (snd (nested_lookup env))"
  by (auto simp: nested_lookup_def comp_simps split: sum.splits)

lemma direct_lookup_events:
  "set (snd (direct_lookup env)) \<subseteq> {ESwitchDefault, EFindVideo, EDirectSrc}"
  "distinct (snd (direct_lookup env))"
  by (auto simp: direct_lookup_def comp_simps split: sum.splits)


lemma lookup_events:
  "set (snd (try_except (nested_lookup env) (\<lambda>e. direct_lookup env)))
     \<subseteq> {EFindIframe, ESwitchFrame, EWaitVideo TIMEOUT, ENestedSrc,
         ESwitchDefault, EFindVideo, EDirectSrc}"
  "distinct (snd (try_except (nested_lookup env) (\<lambda>e. direct_lookup env)))"
  using nested_lookup_events[of env] direct_lookup_events[of env]
  by (auto simp: snd_try_except split: sum.splits)

lemma script_scan_events:
  "set (snd (comp_bind (comp_call EFindScripts r) (scan_scripts 0)))
     \<subseteq> insert EFindScripts (range EScriptHtml)"
  "distinct (snd (comp_bind (comp_call EFindScripts r) (scan_scripts 0)))"
proof -
  have sub: "set (snd (scan_scripts 0 ss)) \<subseteq> range EScriptHtml" for ss
    using scan_scripts_events[of _ 0 ss] by blast
  show "set (snd (comp_bind (comp_call EFindScripts r) (scan_scripts 0)))
     \<subseteq> insert EFindScripts (range EScriptHtml)"
    using sub by (cases r) (auto simp: comp_simps)
  have "EFindScripts \<notin> set (snd (scan_scripts 0 ss))" for ss
    using sub[of ss] by blast
  then show "distinct (snd (comp_bind (comp_call EFindScripts r) (scan_scripts 0)))"
    using scan_scripts_distinct by (cases r) (auto simp: comp_simps)
qed

lemma extract_tail_events:
  "set (snd (extract_tail env))
     \<subseteq> {EFindIframe, ESwitchFrame, EWaitVideo TIMEOUT, ENestedSrc,
         ESwitchDefault, EFindVideo, EDirectSrc} \<union> insert EFindScripts (range EScriptHtml)"
  "distinct (snd (extract_tail env))"
proof -
  let ?l = "try_except (nested_lookup env) (\<lambda>e. direct_lookup env)"
  let ?s = "comp_bind (comp_call EFindScripts (find_scripts env)) (scan_scripts 0)"
  have cases: "snd (extract_tail env) = snd ?l \<or> snd (extract_tail env) = snd ?l @ snd ?s"
    by (simp add: extract_tail_def snd_comp_bind[of ?l] snd_comp_return
          split: sum.splits flow.splits)
  show "set (snd (extract_tail env))
     \<subseteq> {EFindIframe, ESwitchFrame, EWaitVideo TIMEOUT, ENestedSrc,
         ESwitchDefault, EFindVideo, EDirectSrc} \<union> insert EFindScripts (range EScriptHtml)"
    using cases lookup_events(1)[of env] script_scan_events(1)[of "find_scripts env"]
    by auto
  have "set (snd ?l) \<inter> set (snd ?s) = {}"
    using lookup_events(1)[of env] script_scan_events(1)[of "find_scripts env"]
    by blast
  then show "distinct (snd (extract_tail env))"
    using cases lookup_events(2)[of env] script_scan_events(2)[of "find_scripts env"]
    by auto
qed

lemma extract_unfold:
  "extract_video_from_iframe env u =
     try_except
       (comp_bind (comp_call (EGet u) (nav_get env)) (\<lambda>_.
        comp_bind (comp_call (ESetPageLoadTimeout TIMEOUT) (set_page_load_timeout env)) (\<lambda>_.
        comp_bind (comp_call (EWaitIframe TIMEOUT) (wait_iframe env)) (\<lambda>_. extract_tail env))))
       (\<lambda>e. comp_raise e)"
  by (simp add: extract_video_from_iframe_def extract_tail_def)

lemma extract_events:
  "\<exists>t. snd (extract_video_from_iframe env u) = EGet u # t \<and> distinct t
     \<and> EGet u \<notin> set t \<and> ELaunch \<notin> set t \<and> EQuit \<notin> set t"
  using extract_tail_events[of env]
  by (auto simp: extract_unfold comp_simps split: sum.splits)


section \<open>The handlers, case by case\<close>

lemma fst_extract_stream:
  "req_method req \<noteq> ''OPTIONS'' \<Longrightarrow>
   fst (extract_stream req env) =
     (case fst (extract_stream_try req env) of
        Inr resp \<Rightarrow> resp
      | Inl e \<Rightarrow> (JObj [(''success'', JBool False), (''error'', JStr (exn_str e))], 500))"
  by (simp add: extract_stream_def split: prod.splits sum.splits)

lemma snd_extract_stream:
  "req_method req \<noteq> ''OPTIONS'' \<Longrightarrow>
   snd (extract_stream req env) = snd (extract_stream_try req env)"
  by (simp add: extract_stream_def split: prod.splits sum.splits)

lemma proxy_iframe_post:
  "req_method req \<noteq> ''OPTIONS'' \<Longrightarrow>
   proxy_iframe req =
     (case fst (proxy_iframe_try req) of
        Inr resp \<Rightarrow> resp
      | Inl e \<Rightarrow> (JObj [(''error'', JStr (exn_str e)), (''success'', JBool False)], 500))"
  by (simp add: proxy_iframe_def split: prod.splits sum.splits)

lemma fst_py_get_dict:
  "fst (py_get (JObj kv) k) = Inr (case map_of kv k of None \<Rightarrow> JNull | Some v \<Rightarrow> v)"
  and snd_py_get: "snd (py_get d k) = []"
  by (simp_all add: py_get_def comp_simps split: json.splits)

text \<open>The body of the outer \<open>try\<close> once a truthy url has been read.\<close>

lemma extract_stream_try_url:
  assumes "get_json req = Inr (JObj kv)" and "map_of kv ''url'' = Some u" and "truthy u"
  shows "fst (extract_stream_try req env) =
     (case launch env of
        Inl e \<Rightarrow> Inl e
      | Inr d \<Rightarrow>
         (case quit_driver env of
            Inl q \<Rightarrow> Inl q
          | Inr _ \<Rightarrow>
             (case fst (extract_video_from_iframe env u) of
                Inl e \<Rightarrow> Inl e
              | Inr w \<Rightarrow>
                  if truthy_attr w then
                    Inr (JObj [(''success'', JBool True), (''video_url'', attr_json w),
                               (''message'', JStr msg_extracted)], 200)
                  else Inr (JObj [(''success'', JBool False),
                                  (''error'', JStr msg_not_found)], 404))))"
  using assms
  by (simp add: extract_stream_try_def get_chrome_driver_def comp_simps fst_py_get_dict
      split: sum.splits)

lemma extract_stream_try_events:
  assumes "get_json req = Inr (JObj kv)" and "map_of kv ''url'' = Some u" and "truthy u"
  shows "snd (extract_stream_try req env) =
     (case launch env of
        Inl e \<Rightarrow> [ELaunch]
      | Inr d \<Rightarrow> ELaunch # snd (extract_video_from_iframe env u) @ [EQuit])"
  using assms
  by (simp add: extract_stream_try_def get_chrome_driver_def comp_simps fst_py_get_dict snd_py_get
      split: sum.splits)

lemma extract_stream_try_no_url:
  assumes "get_json req = Inr (JObj kv)"
    and "\<not> truthy (case map_of kv ''url'' of None \<Rightarrow> JNull | Some v \<Rightarrow> v)"
  shows "extract_stream_try req env =
     (Inr (JObj [(''error'', JStr ''URL requerida''), (''success'', JBool False)], 400), [])"
  using assms
  by (simp add: extract_stream_try_def comp_bind_def comp_return_def py_get_def)

lemma nested_lookup_result:
  "fst (nested_lookup env) = Inr (Return w) \<Longrightarrow> truthy_attr w"
  by (simp add: nested_lookup_def comp_simps split: sum.splits if_splits)

lemma direct_lookup_result:
  "fst (direct_lookup env) = Inr (Return w) \<Longrightarrow> truthy_attr w"
  by (simp add: direct_lookup_def comp_simps split: sum.splits if_splits)

lemma lookup_result:
  "fst (try_except (nested_lookup env) (\<lambda>e. direct_lookup env)) = Inr (Return w) \<Longrightarrow>
     truthy_attr w"
  using nested_lookup_result[of env w] direct_lookup_result[of env w]
  by (simp add: fst_try_except split: sum.splits)

lemma extract_tail_result:
  assumes "fst (extract_tail env) = Inr w"
  shows "w = None \<or> truthy_attr w"
proof (cases "fst (try_except (nested_lookup env) (\<lambda>e. direct_lookup env))")
  case (Inl e)
  with assms show ?thesis by (simp add: extract_tail_def fst_comp_bind)
next
  case (Inr fl)
  show ?thesis
  proof (cases fl)
    case (Return w')
    with Inr assms have "w' = w" by (simp add: extract_tail_def fst_comp_bind fst_comp_return)
    with Inr Return lookup_result[of env w] show ?thesis by simp
  next
    case Fallthrough
    with Inr assms have s: "fst (comp_bind (comp_call EFindScripts (find_scripts env))
        (scan_scripts 0)) = Inr w"
      by (simp add: extract_tail_def fst_comp_bind[of "try_except _ _"])
    show ?thesis
    proof (cases w)
      case None
      then show ?thesis by simp
    next
      case (Some c)
      with s obtain ss where "fst (scan_scripts 0 ss) = Inr (Some c)"
        by (auto simp: fst_comp_bind fst_comp_call split: sum.splits)
      from scan_scripts_result[OF this] have "py_in ''http'' c" by simp
      then have "c \<noteq> []" by (rule py_in_nonempty)
      with Some show ?thesis by simp
    qed
  qed
qed

lemma fst_extract_video:
  "fst (extract_video_from_iframe env u) =
     (case nav_get env of Inl e \<Rightarrow> Inl e | Inr _ \<Rightarrow>
      (case set_page_load_timeout env of Inl e \<Rightarrow> Inl e | Inr _ \<Rightarrow>
       (case wait_iframe env of Inl e \<Rightarrow> Inl e | Inr _ \<Rightarrow> fst (extract_tail env))))"
  by (simp add: extract_unfold comp_simps split: sum.splits)

lemma extract_returns_truthy:
  "fst (extract_video_from_iframe env u) = Inr w \<Longrightarrow> w = None \<or> truthy_attr w"
  using extract_tail_result[of env w]
  by (simp add: fst_extract_video split: sum.splits)


lemma extract_stream_events:
  "snd (extract_stream req env) =
     (if req_method req = ''OPTIONS'' then []
      else case get_json req of
        Inl e \<Rightarrow> []
      | Inr d \<Rightarrow>
         (case d of
            JObj kv \<Rightarrow>
              (case map_of kv ''url'' of
                 None \<Rightarrow> []
               | Some u \<Rightarrow>
                   if truthy u then
                     (case launch env of
                        Inl e \<Rightarrow> [ELaunch]
                      | Inr dr \<Rightarrow> ELaunch # snd (extract_video_from_iframe env u) @ [EQuit])
                   else [])
          | _ \<Rightarrow> []))"
proof (cases "req_method req = ''OPTIONS''")
  case True
  then show ?thesis by (simp add: extract_stream_def)
next
  case False
  note post = this
  show ?thesis
  proof (cases "get_json req")
    case (Inl e)
    with post show ?thesis
      by (simp add: snd_extract_stream extract_stream_try_def comp_bind_def)
  next
    case (Inr d)
    show ?thesis
    proof (cases "\<exists>kv u. d = JObj kv \<and> map_of kv ''url'' = Some u \<and> truthy u")
      case True
      then obtain kv u where d: "d = JObj kv" "map_of kv ''url'' = Some u" "truthy u"
        by blast
      with Inr have "get_json req = Inr (JObj kv)" by simp
      from extract_stream_try_events[OF this d(2) d(3)] post Inr d show ?thesis
        by (simp add: snd_extract_stream)
    next
      case False
      with Inr have "snd (extract_stream_try req env) = []"
        by (cases d)
           (auto simp: extract_stream_try_def comp_simps py_get_def split: option.splits)
      with post Inr False show ?thesis
        by (cases d) (auto simp: snd_extract_stream split: option.splits)
    qed
  qed
qed

lemma launch_in_trace:
  assumes "ELaunch \<in> set (snd (extract_stream req env))"
  shows "\<exists>kv u. req_method req \<noteq> ''OPTIONS'' \<and> get_json req = Inr (JObj kv)
           \<and> map_of kv ''url'' = Some u \<and> truthy u"
proof (cases "get_json req")
  case (Inl e)
  with assms show ?thesis by (simp add: extract_stream_events split: if_splits)
next
  case (Inr d)
  show ?thesis
  proof (cases d)
    case (JObj kv)
    show ?thesis
    proof (cases "map_of kv ''url''")
      case None
      with assms Inr JObj show ?thesis by (simp add: extract_stream_events split: if_splits)
    next
      case (Some u)
      with assms Inr JObj show ?thesis by (simp add: extract_stream_events split: if_splits)
    qed
  qed (use assms Inr in \<open>simp_all add: extract_stream_events split: if_splits\<close>)
qed

lemma proxy_iframe_try_dict:
  "get_json req = Inr (JObj kv) \<Longrightarrow>
   fst (proxy_iframe_try req) =
     (if \<not> truthy (case map_of kv ''url'' of None \<Rightarrow> JNull | Some v \<Rightarrow> v) then
        Inr (JObj [(''error'', JStr ''URL requerida''), (''success'', JBool False)], 400)
      else
        Inr (JObj [(''success'', JBool True),
                   (''iframe_url'', case map_of kv ''url'' of None \<Rightarrow> JNull | Some v \<Rightarrow> v),
                   (''message'', JStr ''URL lista para embeber'')], 200))"
  by (simp add: proxy_iframe_try_def comp_simps fst_py_get_dict)

lemma try_bodies_no_dict:
  assumes "get_json req = Inr d" and "\<not> is_dict d"
  shows "extract_stream_try req env = (Inl (attribute_error d ''get''), [])"
    and "proxy_iframe_try req = (Inl (attribute_error d ''get''), [])"
  using assms
  by (cases d; simp add: extract_stream_try_def proxy_iframe_try_def comp_bind_def
        comp_raise_def py_get_def)+

lemma try_bodies_get_json_raises:
  assumes "get_json req = Inl e"
  shows "extract_stream_try req env = (Inl e, [])"
    and "proxy_iframe_try req = (Inl e, [])"
  using assms
  by (simp_all add: extract_stream_try_def proxy_iframe_try_def comp_bind_def)





text \<open>Unfolding everything: for evaluating a handler on a concrete request and browser.\<close>

lemmas model_defs = extract_stream_def extract_stream_try_def proxy_iframe_def
  proxy_iframe_try_def extract_video_from_iframe_def nested_lookup_def direct_lookup_def
  get_chrome_driver_def py_get_def comp_bind_def comp_call_def comp_return_def comp_raise_def
  try_except_def try_finally_def TIMEOUT_def msg_extracted_def msg_not_found_def
  attribute_error_def quoted_def

lemmas fixture_defs = browser_ok_def browser_no_src_def browser_no_launch_def
  browser_nav_timeout_def browser_quit_raises_def browser_no_video_tag_def browser_script_def
  browser_nested_missing_def
  req_url_def req_no_url_def req_empty_url_def req_no_body_def req_list_body_def
  req_options_def

section \<open>The claims\<close>

text \<open>
  C1. For every POST /api/extract-stream request: a body with a url for which extraction
  yields a video URL is answered \<open>{success: true, video_url, message}\<close> with 200; a body
  whose url is missing \<open>{error, success: false}\<close> with 400; no video URL found
  \<open>{success: false, error}\<close> with 404; an internal error of the extraction
  \<open>{success: false, error}\<close> with 500.

  The responses are built inside \<open>try: ... finally: driver.quit()\<close>, itself inside the
  handler's \<open>try: ... except Exception\<close>. When \<open>driver.quit()\<close> raises, its exception
  replaces the pending \<open>return\<close> and the handler answers 500, also after an extraction
  that found the video. So the 200 and the 404 need \<open>driver.quit()\<close> to return. The
  theorem is the claim with that condition: for a POST whose body is a dict,
  \<^item> no \<open>url\<close> key: 400;
  \<^item> a truthy url, Chrome starts, the routine returns a URL, \<open>quit\<close> returns: 200 with
    that URL;
  \<^item> the same with the routine returning \<open>None\<close>: 404;
  \<^item> the routine raises: 500, the error being \<open>str\<close> of its exception (of \<open>quit\<close>'s
    when that raises too);
  \<^item> \<open>quit\<close> raises: 500.
\<close>

theorem extract_stream_contract:
  assumes "req_method req = ''POST''" and "get_json req = Inr (JObj kv)"
  shows
   "(map_of kv ''url'' = None \<longrightarrow>
       fst (extract_stream req env) =
         (JObj [(''error'', JStr ''URL requerida''), (''success'', JBool False)], 400))
    \<and> (\<forall>u v. map_of kv ''url'' = Some u \<and> truthy u \<and> launch env = Inr ()
          \<and> fst (extract_video_from_iframe env u) = Inr (Some v)
          \<and> quit_driver env = Inr () \<longrightarrow>
       fst (extract_stream req env) =
         (JObj [(''success'', JBool True), (''video_url'', JStr v),
                (''message'', JStr msg_extracted)], 200))
    \<and> (\<forall>u. map_of kv ''url'' = Some u \<and> truthy u \<and> launch env = Inr ()
          \<and> fst (extract_video_from_iframe env u) = Inr None
          \<and> quit_driver env = Inr () \<longrightarrow>
       fst (extract_stream req env) =
         (JObj [(''success'', JBool False), (''error'', JStr msg_not_found)], 404))
    \<and> (\<forall>u e. map_of kv ''url'' = Some u \<and> truthy u \<and> launch env = Inr ()
          \<and> fst (extract_video_from_iframe env u) = Inl e \<longrightarrow>
       fst (extract_stream req env) =
         (JObj [(''success'', JBool False),
                (''error'', JStr (case quit_driver env of
                                     Inl q \<Rightarrow> exn_str q | Inr r \<Rightarrow> exn_str e))], 500))
    \<and> (\<forall>u q. map_of kv ''url'' = Some u \<and> truthy u \<and> launch env = Inr ()
          \<and> quit_driver env = Inl q \<longrightarrow>
       fst (extract_stream req env) =
         (JObj [(''success'', JBool False), (''error'', JStr (exn_str q))], 500))"
proof -
  from assms(1) have post: "req_method req \<noteq> ''OPTIONS''" by simp
  have c400: "map_of kv ''url'' = None \<longrightarrow>
       fst (extract_stream req env) =
         (JObj [(''error'', JStr ''URL requerida''), (''success'', JBool False)], 400)"
    using post assms(2) by (simp add: fst_extract_stream extract_stream_try_no_url)
  have c200: "fst (extract_stream req env) =
         (JObj [(''success'', JBool True), (''video_url'', JStr v),
                (''message'', JStr msg_extracted)], 200)"
    if "map_of kv ''url'' = Some u" "truthy u" "launch env = Inr ()"
       "fst (extract_video_from_iframe env u) = Inr (Some v)" "quit_driver env = Inr ()"
    for u v
  proof -
    from extract_returns_truthy[OF that(4)] have "truthy_attr (Some v)" by simp
    with that post show ?thesis
      by (simp add: fst_extract_stream extract_stream_try_url[OF assms(2) that(1) that(2)])
  qed
  have c404: "fst (extract_stream req env) =
         (JObj [(''success'', JBool False), (''error'', JStr msg_not_found)], 404)"
    if "map_of kv ''url'' = Some u" "truthy u" "launch env = Inr ()"
       "fst (extract_video_from_iframe env u) = Inr None" "quit_driver env = Inr ()"
    for u
    using that post
    by (simp add: fst_extract_stream extract_stream_try_url[OF assms(2) that(1) that(2)])
  have c500: "fst (extract_stream req env) =
         (JObj [(''success'', JBool False),
                (''error'', JStr (case quit_driver env of
                                     Inl q \<Rightarrow> exn_str q | Inr r \<Rightarrow> exn_str e))], 500)"
    if "map_of kv ''url'' = Some u" "truthy u" "launch env = Inr ()"
       "fst (extract_video_from_iframe env u) = Inl e"
    for u e
    using that post
    by (simp add: fst_extract_stream extract_stream_try_url[OF assms(2) that(1) that(2)]
          split: sum.splits)
  have q500: "fst (extract_stream req env) =
         (JObj [(''success'', JBool False), (''error'', JStr (exn_str q))], 500)"
    if "map_of kv ''url'' = Some u" "truthy u" "launch env = Inr ()"
       "quit_driver env = Inl q"
    for u q
    using that post
    by (simp add: fst_extract_stream extract_stream_try_url[OF assms(2) that(1) that(2)])
  from c400 c200 c404 c500 q500 show ?thesis by blast
qed


theorem extract_stream_contract_witness:
  "fst (extract_stream req_no_url browser_ok) =
     (JObj [(''error'', JStr ''URL requerida''), (''success'', JBool False)], 400)
   \<and> fst (extract_video_from_iframe browser_ok (JStr ''https://site.example/embed''))
       = Inr (Some ''https://cdn.example/live.m3u8'')
   \<and> fst (extract_stream req_url browser_ok) =
     (JObj [(''success'', JBool True), (''video_url'', JStr ''https://cdn.example/live.m3u8''),
            (''message'', JStr msg_extracted)], 200)
   \<and> fst (extract_video_from_iframe browser_no_src (JStr ''https://site.example/embed''))
       = Inr None
   \<and> fst (extract_stream req_url browser_no_src) =
     (JObj [(''success'', JBool False), (''error'', JStr msg_not_found)], 404)
   \<and> fst (extract_video_from_iframe browser_nav_timeout (JStr ''https://site.example/embed''))
       = Inl (Exn ''TimeoutException'' ''Message: timeout'')
   \<and> fst (extract_stream req_url browser_nav_timeout) =
     (JObj [(''success'', JBool False), (''error'', JStr ''Message: timeout'')], 500)
   \<and> quit_driver browser_quit_raises
       = Inl (Exn ''ConnectionResetError'' ''Connection reset by peer'')
   \<and> fst (extract_stream req_url browser_quit_raises) =
     (JObj [(''success'', JBool False), (''error'', JStr ''Connection reset by peer'')], 500)"
proof -
  have m0: "req_method req_no_url = ''POST''"
    and b0: "get_json req_no_url = Inr (JObj [(''page'', JInt 1)])"
    by (simp_all add: req_no_url_def)
  have k0: "map_of [(''page'', JInt 1)] ''url'' = None" by simp
  have m: "req_method req_url = ''POST''"
    and b: "get_json req_url = Inr (JObj [(''url'', JStr ''https://site.example/embed'')])"
    by (simp_all add: req_url_def)
  have k: "map_of [(''url'', JStr ''https://site.example/embed'')] ''url''
             = Some (JStr ''https://site.example/embed'')"
    and t: "truthy (JStr ''https://site.example/embed'')"
    by simp_all
  have l: "launch browser_ok = Inr ()" "launch browser_no_src = Inr ()"
    "launch browser_nav_timeout = Inr ()" "launch browser_quit_raises = Inr ()"
    by (simp_all add: fixture_defs)
  have q: "quit_driver browser_ok = Inr ()" "quit_driver browser_no_src = Inr ()"
    "quit_driver browser_nav_timeout = Inr ()"
    by (simp_all add: fixture_defs)
  have qr: "quit_driver browser_quit_raises
       = Inl (Exn ''ConnectionResetError'' ''Connection reset by peer'')"
    by (simp add: fixture_defs)
  have x1: "fst (extract_video_from_iframe browser_ok (JStr ''https://site.example/embed''))
       = Inr (Some ''https://cdn.example/live.m3u8'')"
    by (simp add: model_defs fixture_defs)
  have x2: "fst (extract_video_from_iframe browser_no_src (JStr ''https://site.example/embed''))
       = Inr None"
    by (simp add: model_defs fixture_defs)
  have x3: "fst (extract_video_from_iframe browser_nav_timeout
                  (JStr ''https://site.example/embed''))
       = Inl (Exn ''TimeoutException'' ''Message: timeout'')"
    by (simp add: model_defs fixture_defs)
  have r400: "fst (extract_stream req_no_url browser_ok) =
     (JObj [(''error'', JStr ''URL requerida''), (''success'', JBool False)], 400)"
    using extract_stream_contract[OF m0 b0, of browser_ok] k0 by blast
  have r200: "fst (extract_stream req_url browser_ok) =
     (JObj [(''success'', JBool True), (''video_url'', JStr ''https://cdn.example/live.m3u8''),
            (''message'', JStr msg_extracted)], 200)"
    using extract_stream_contract[OF m b, of browser_ok] k t l(1) q(1) x1 by blast
  have r404: "fst (extract_stream req_url browser_no_src) =
     (JObj [(''success'', JBool False), (''error'', JStr msg_not_found)], 404)"
    using extract_stream_contract[OF m b, of browser_no_src] k t l(2) q(2) x2 by blast
  have r500: "fst (extract_stream req_url browser_nav_timeout) =
     (JObj [(''success'', JBool False), (''error'', JStr ''Message: timeout'')], 500)"
    using extract_stream_contract[OF m b, of browser_nav_timeout] k t l(3) q(3) x3 by simp
  have rq: "fst (extract_stream req_url browser_quit_raises) =
     (JObj [(''success'', JBool False), (''error'', JStr ''Connection reset by peer'')], 500)"
    using extract_stream_contract[OF m b, of browser_quit_raises] k t l(4) qr by simp
  from r400 x1 r200 x2 r404 x3 r500 qr rq show ?thesis by blast
qed

text \<open>
  The claim without the condition fails: on \<open>browser_quit_raises\<close> the routine returns
  the URL of the nested video, \<open>driver.quit()\<close> raises, and the answer is 500.
\<close>

theorem extract_stream_success_needs_quit_counterexample:
  "\<not> (\<forall>req env kv u v.
        req_method req = ''POST'' \<and> get_json req = Inr (JObj kv)
        \<and> map_of kv ''url'' = Some u \<and> truthy u \<and> launch env = Inr ()
        \<and> fst (extract_video_from_iframe env u) = Inr (Some v)
        \<longrightarrow> snd (fst (extract_stream req env)) = 200)"
proof
  assume all: "\<forall>req env kv u v.
        req_method req = ''POST'' \<and> get_json req = Inr (JObj kv)
        \<and> map_of kv ''url'' = Some u \<and> truthy u \<and> launch env = Inr ()
        \<and> fst (extract_video_from_iframe env u) = Inr (Some v)
        \<longrightarrow> snd (fst (extract_stream req env)) = 200"
  have "req_method req_url = ''POST''
      \<and> get_json req_url = Inr (JObj [(''url'', JStr ''https://site.example/embed'')])
      \<and> map_of [(''url'', JStr ''https://site.example/embed'')] ''url''
           = Some (JStr ''https://site.example/embed'')
      \<and> truthy (JStr ''https://site.example/embed'')
      \<and> launch browser_quit_raises = Inr ()
      \<and> fst (extract_video_from_iframe browser_quit_raises
                (JStr ''https://site.example/embed''))
           = Inr (Some ''https://cdn.example/live.m3u8'')"
    by (simp add: model_defs fixture_defs)
  with all have "snd (fst (extract_stream req_url browser_quit_raises)) = 200"
    by blast
  moreover have "snd (fst (extract_stream req_url browser_quit_raises)) = 500"
    by (simp add: model_defs fixture_defs)
  ultimately show False by simp
qed

text \<open>
  C2. In every execution of the extraction sequence, the timeout \<open>TIMEOUT\<close> bounds the
  page-load step and every element-wait step; in particular, no navigation step runs
  before the page-load timeout has been configured on the browser instance.

  Both waits are \<open>WebDriverWait(driver, TIMEOUT)\<close>. The page load is not bounded by
  \<open>TIMEOUT\<close>: the routine calls \<open>driver.get(iframe_url)\<close> (line 59) and only then
  \<open>driver.set_page_load_timeout(TIMEOUT)\<close> (line 60), on a browser started for this
  request that never navigates again. \<open>extract_events\<close> above shows that the navigation
  is the first call of the routine on every browser; here are the calls of one request
  on which every call returns.
\<close>

theorem navigation_precedes_page_load_timeout:
  "snd (extract_stream req_url browser_ok) =
     [ELaunch, EGet (JStr ''https://site.example/embed''), ESetPageLoadTimeout TIMEOUT,
      EWaitIframe TIMEOUT, EFindIframe, ESwitchFrame, EWaitVideo TIMEOUT, ENestedSrc, EQuit]"
  by (simp add: model_defs fixture_defs)

text \<open>
  C3. For every POST /api/extract-stream request that acquires a browser instance, the
  instance is released (\<open>driver.quit()\<close> is called) before the response is produced,
  on every exit path: success, no video found, and every raised exception.

  A request acquires a browser when the call that starts Chrome is made and returns a
  driver. The calls the request makes on the browser then start with that one and end
  with \<open>quit\<close>, and neither happens in between: \<open>quit\<close> is the last call before the
  handler returns its response, whatever the calls in between return or raise.
\<close>

theorem browser_released_on_every_path:
  assumes "ELaunch \<in> set (snd (extract_stream req env))" and "launch env = Inr ()"
  shows "\<exists>t. snd (extract_stream req env) = ELaunch # t @ [EQuit]
            \<and> ELaunch \<notin> set t \<and> EQuit \<notin> set t"
proof -
  from launch_in_trace[OF assms(1)] obtain kv u where
    "req_method req \<noteq> ''OPTIONS''" "get_json req = Inr (JObj kv)"
    "map_of kv ''url'' = Some u" "truthy u"
    by blast
  with assms(2) have
    tr: "snd (extract_stream req env) = ELaunch # snd (extract_video_from_iframe env u) @ [EQuit]"
    by (simp add: extract_stream_events)
  from extract_events[of env u] obtain t where
    "snd (extract_video_from_iframe env u) = EGet u # t" "ELaunch \<notin> set t" "EQuit \<notin> set t"
    by blast
  with tr show ?thesis by auto
qed


theorem browser_released_witness:
  "ELaunch \<in> set (snd (extract_stream req_url browser_ok)) \<and> launch browser_ok = Inr ()
   \<and> (\<exists>t. snd (extract_stream req_url browser_ok) = ELaunch # t @ [EQuit]
            \<and> ELaunch \<notin> set t \<and> EQuit \<notin> set t)
   \<and> ELaunch \<in> set (snd (extract_stream req_url browser_nav_timeout))
   \<and> launch browser_nav_timeout = Inr ()
   \<and> (\<exists>t. snd (extract_stream req_url browser_nav_timeout) = ELaunch # t @ [EQuit]
            \<and> ELaunch \<notin> set t \<and> EQuit \<notin> set t)"
proof -
  have a: "ELaunch \<in> set (snd (extract_stream req_url browser_ok))"
    by (simp add: model_defs fixture_defs)
  have b: "launch browser_ok = Inr ()"
    by (simp add: fixture_defs)
  have c: "ELaunch \<in> set (snd (extract_stream req_url browser_nav_timeout))"
    by (simp add: model_defs fixture_defs)
  have d: "launch browser_nav_timeout = Inr ()"
    by (simp add: fixture_defs)
  from browser_released_on_every_path[OF a b] browser_released_on_every_path[OF c d] a b c d
  show ?thesis by blast
qed

text \<open>
  C4. The extraction routine follows a fixed try/fallback sequence: navigate, wait for an
  iframe element, switch into the nested frame and read the video element's \<open>src\<close>; on
  failure of that step, read a top-level video element's \<open>src\<close>; on failure of that,
  scan the script elements; it returns \<open>None\<close> only when every fallback fails.

  The lookup of the top-level video stands in the \<open>except\<close> handler of the nested
  lookup. When the top document has no \<open>video\<close> element, \<open>find_element\<close> raises inside
  that handler, the exception leaves the routine through the outer
  \<open>except Exception: raise\<close>, and the scripts are never scanned, although the comment
  before the scan (line 96) reads: if there is no video tag, try to extract from script.
  On \<open>browser_no_video_tag\<close> the routine raises after \<open>EFindVideo\<close> without asking for
  the scripts, and the scan of the page's scripts would have returned the second one.
\<close>

theorem no_video_tag_skips_script_scan:
  "extract_video_from_iframe browser_no_video_tag (JStr ''https://site.example/embed'') =
     (Inl (Exn ''NoSuchElementException'' ''Message: no such element''),
      [EGet (JStr ''https://site.example/embed''), ESetPageLoadTimeout TIMEOUT,
       EWaitIframe TIMEOUT, EFindIframe, ESwitchFrame, EWaitVideo TIMEOUT,
       ESwitchDefault, EFindVideo])
   \<and> find_scripts browser_no_video_tag =
       Inr [Inr (Some ''var a = 1;''), Inr (Some ''player.load('http://h/v.m3u8');'')]
   \<and> fst (scan_scripts 0 [Inr (Some ''var a = 1;''),
                            Inr (Some ''player.load('http://h/v.m3u8');'')])
       = Inr (Some ''player.load('http://h/v.m3u8');'')"
  by (simp add: model_defs fixture_defs)




text \<open>
  C6. For every successful (200) response of POST /api/extract-stream, the \<open>video_url\<close>
  field is a URL string: every value the extraction routine returns on success is a URL,
  on its three lookup paths (nested video, direct video, script scan).

  On the script path the routine returns \<open>content\<close>, the whole \<open>innerHTML\<close> of the
  first script that contains \<open>http\<close> and \<open>.m3u8\<close>, not a URL taken out of it. On
  \<open>browser_script\<close> the response is 200 and its \<open>video_url\<close> is a line of JavaScript.
\<close>

theorem script_text_returned_as_video_url:
  "fst (extract_stream req_url browser_script) =
     (JObj [(''success'', JBool True),
            (''video_url'', JStr ''player.load('http://h/v.m3u8');''),
            (''message'', JStr msg_extracted)], 200)"
  by (simp add: model_defs fixture_defs)

text \<open>
  C7. For every OPTIONS request to a POST route (/api/extract-stream and
  /api/proxy-iframe), the response has status 200 and an empty body.

  Both handlers return \<open>jsonify({}), 200\<close> before anything else: the body is the empty
  JSON object, and no call is made on a browser.
\<close>

theorem options_preflight:
  assumes "req_method req = ''OPTIONS''"
  shows "extract_stream req env = ((JObj [], 200), []) \<and> proxy_iframe req = (JObj [], 200)"
  using assms by (simp add: extract_stream_def proxy_iframe_def)

theorem options_preflight_witness:
  "req_method req_options = ''OPTIONS''
   \<and> extract_stream req_options browser_ok = ((JObj [], 200), [])
   \<and> proxy_iframe req_options = (JObj [], 200)"
proof -
  have m: "req_method req_options = ''OPTIONS''" by (simp add: req_options_def)
  from options_preflight[OF m, of browser_ok] m show ?thesis by simp
qed

text \<open>
  C8. For every POST /api/proxy-iframe request whose JSON body contains a non-empty url,
  the \<open>iframe_url\<close> field of the 200 response equals the input url, unchanged.

  Stated for every truthy value \<open>u\<close> under the key \<open>url\<close>; a non-empty string
  \<open>JStr s\<close> is one.
\<close>

theorem proxy_iframe_echoes_url:
  assumes "req_method req = ''POST''" and "get_json req = Inr (JObj kv)"
    and "map_of kv ''url'' = Some u" and "truthy u"
  shows "proxy_iframe req =
           (JObj [(''success'', JBool True), (''iframe_url'', u),
                  (''message'', JStr ''URL lista para embeber'')], 200)"
  using assms by (simp add: proxy_iframe_post proxy_iframe_try_dict)

theorem proxy_iframe_echoes_url_witness:
  "req_method req_url = ''POST''
   \<and> get_json req_url = Inr (JObj [(''url'', JStr ''https://site.example/embed'')])
   \<and> map_of [(''url'', JStr ''https://site.example/embed'')] ''url''
        = Some (JStr ''https://site.example/embed'')
   \<and> truthy (JStr ''https://site.example/embed'')
   \<and> proxy_iframe req_url =
           (JObj [(''success'', JBool True),
                  (''iframe_url'', JStr ''https://site.example/embed''),
                  (''message'', JStr ''URL lista para embeber'')], 200)"
proof -
  have m: "req_method req_url = ''POST''" by (simp add: req_url_def)
  have b: "get_json req_url = Inr (JObj [(''url'', JStr ''https://site.example/embed'')])"
    by (simp add: req_url_def)
  have k: "map_of [(''url'', JStr ''https://site.example/embed'')] ''url''
        = Some (JStr ''https://site.example/embed'')" by simp
  have t: "truthy (JStr ''https://site.example/embed'')" by simp
  from proxy_iframe_echoes_url[OF m b k t] m b k t show ?thesis by blast
qed


text \<open>
  C9. For every POST request to /api/extract-stream or /api/proxy-iframe whose body is
  absent or is not a JSON object, the handler responds with 500 and the error shape: the
  case falls into the \<open>except Exception\<close> branch, not the 400 branch.

  An absent or malformed body makes \<open>request.get_json()\<close> raise, or return \<open>None\<close>;
  a body that is JSON but not an object makes it return a value without \<open>get\<close>, and
  \<open>data.get('url')\<close> raises an \<open>AttributeError\<close>. No browser is started.
\<close>

theorem non_object_body_is_internal_error:
  assumes "req_method req = ''POST''"
  shows "(\<forall>e. get_json req = Inl e \<longrightarrow>
            extract_stream req env =
              ((JObj [(''success'', JBool False), (''error'', JStr (exn_str e))], 500), [])
            \<and> proxy_iframe req =
              (JObj [(''error'', JStr (exn_str e)), (''success'', JBool False)], 500))
       \<and> (\<forall>d. get_json req = Inr d \<and> \<not> is_dict d \<longrightarrow>
            extract_stream req env =
              ((JObj [(''success'', JBool False),
                      (''error'', JStr (exn_str (attribute_error d ''get'')))], 500), [])
            \<and> proxy_iframe req =
              (JObj [(''error'', JStr (exn_str (attribute_error d ''get''))),
                     (''success'', JBool False)], 500))"
  using assms
  by (simp add: extract_stream_def proxy_iframe_def try_bodies_no_dict
        try_bodies_get_json_raises)

theorem non_object_body_is_internal_error_witness:
  "req_method req_no_body = ''POST''
   \<and> get_json req_no_body = Inl (Exn ''UnsupportedMediaType'' ''415 Unsupported Media Type'')
   \<and> extract_stream req_no_body browser_ok =
        ((JObj [(''success'', JBool False),
                (''error'', JStr ''415 Unsupported Media Type'')], 500), [])
   \<and> proxy_iframe req_no_body =
        (JObj [(''error'', JStr ''415 Unsupported Media Type''),
               (''success'', JBool False)], 500)
   \<and> req_method req_list_body = ''POST''
   \<and> get_json req_list_body = Inr (JArr [JStr ''https://site.example/embed''])
   \<and> \<not> is_dict (JArr [JStr ''https://site.example/embed''])
   \<and> extract_stream req_list_body browser_ok =
        ((JObj [(''success'', JBool False),
                (''error'', JStr (CHR 0x27 # ''list' object has no attribute 'get'' @ [CHR 0x27]))],
          500), [])
   \<and> proxy_iframe req_list_body =
        (JObj [(''error'', JStr (CHR 0x27 # ''list' object has no attribute 'get'' @ [CHR 0x27])),
               (''success'', JBool False)], 500)"
proof -
  have m1: "req_method req_no_body = ''POST''" by (simp add: req_no_body_def)
  have b1: "get_json req_no_body =
      Inl (Exn ''UnsupportedMediaType'' ''415 Unsupported Media Type'')"
    by (simp add: req_no_body_def)
  have m2: "req_method req_list_body = ''POST''" by (simp add: req_list_body_def)
  have b2: "get_json req_list_body = Inr (JArr [JStr ''https://site.example/embed''])"
    by (simp add: req_list_body_def)
  have n2: "\<not> is_dict (JArr [JStr ''https://site.example/embed''])" by simp
  from non_object_body_is_internal_error[OF m1, of browser_ok]
       non_object_body_is_internal_error[OF m2, of browser_ok] m1 b1 m2 b2 n2
  show ?thesis by (simp add: attribute_error_def quoted_def)
qed

text \<open>
  C10. For every POST request to /api/extract-stream or /api/proxy-iframe whose JSON body
  has url equal to the empty string, the handler treats it as a missing URL and responds
  \<open>{error, success: false}\<close> with 400: the check is on the truth value, not on the
  presence of the key.

  Stated for every falsy value under the key \<open>url\<close>; the empty string is the witness.
\<close>

theorem falsy_url_is_missing_url:
  assumes "req_method req = ''POST''" and "get_json req = Inr (JObj kv)"
    and "map_of kv ''url'' = Some u" and "\<not> truthy u"
  shows "extract_stream req env =
           ((JObj [(''error'', JStr ''URL requerida''), (''success'', JBool False)], 400), [])
       \<and> proxy_iframe req =
           (JObj [(''error'', JStr ''URL requerida''), (''success'', JBool False)], 400)"
  using assms
  by (simp add: extract_stream_def extract_stream_try_no_url proxy_iframe_post
        proxy_iframe_try_dict)

theorem falsy_url_is_missing_url_witness:
  "req_method req_empty_url = ''POST''
   \<and> get_json req_empty_url = Inr (JObj [(''url'', JStr [])])
   \<and> map_of [(''url'', JStr [])] ''url'' = Some (JStr [])
   \<and> \<not> truthy (JStr [])
   \<and> extract_stream req_empty_url browser_ok =
           ((JObj [(''error'', JStr ''URL requerida''), (''success'', JBool False)], 400), [])
   \<and> proxy_iframe req_empty_url =
           (JObj [(''error'', JStr ''URL requerida''), (''success'', JBool False)], 400)"
proof -
  have m: "req_method req_empty_url = ''POST''" by (simp add: req_empty_url_def)
  have b: "get_json req_empty_url = Inr (JObj [(''url'', JStr [])])"
    by (simp add: req_empty_url_def)
  have k: "map_of [(''url'', JStr [])] ''url'' = Some (JStr [])" by simp
  have t: "\<not> truthy (JStr [])" by simp
  from falsy_url_is_missing_url[OF m b k t, of browser_ok] m b k t show ?thesis by blast
qed

end
